theory Spec2Isabelle
  imports Main
begin

section \<open>Data model of \<^verbatim>\<open>src/auth.ts\<close>\<close>

text \<open>
  What the code can throw.  \<^verbatim>\<open>throw HTTP_NOT_ACCEPTABLE\<close> throws the bare status
  number, \<^verbatim>\<open>ctx.throw(status, msg)\<close> throws koa's HTTP error carrying status and
  message, \<^verbatim>\<open>throw Error(msg)\<close> a plain error, and \<^verbatim>\<open>BigInt(s)\<close> a SyntaxError
  when \<^verbatim>\<open>s\<close> is no integer literal.
\<close>

datatype error =
    ThrownStatus nat
  | HttpError nat string
  | Error string
  | SyntaxError string

text \<open>
  An \<^verbatim>\<open>Account\<close> as far as \<^verbatim>\<open>auth.ts\<close> reads it: the \<^verbatim>\<open>username\<close> and the
  optional \<^verbatim>\<open>srp\<close> string.
\<close>

record account =
  username :: string
  srp :: "string option"

text \<open>The koa session object: it can hold a \<^verbatim>\<open>username\<close>, which can be deleted.\<close>

record session =
  session_username :: "string option"

text \<open>
  The part of the koa \<^verbatim>\<open>Context\<close> that the code touches: \<^verbatim>\<open>ctx.session\<close>, which
  may be missing, and \<^verbatim>\<open>ctx.state.account\<close>.
\<close>

record koa_context =
  ctx_session :: "session option"
  state_account :: "account option"

text \<open>
  The state that \<^verbatim>\<open>setLoggedIn\<close> works on: the request's context and the module-level
  set \<^verbatim>\<open>invalidSessions\<close>.
\<close>

record login_state =
  ctx :: koa_context
  invalidSessions :: "string set"

text \<open>
  Modelled from the spec: the constants of \<^verbatim>\<open>./cross-const\<close>, which is not among the
  sources.  The spec calls a missing session a server error (5xx class) and a missing
  SRP string a "not acceptable" rejection.
\<close>

definition HTTP_SERVER_ERROR :: nat where
  "HTTP_SERVER_ERROR = 500"

definition HTTP_NOT_ACCEPTABLE :: nat where
  "HTTP_NOT_ACCEPTABLE = 406"

section \<open>Session manager\<close>

text \<open>
  \<^verbatim>\<open>return ctx.state.account?.username || ''\<close>: no account attached, or an empty
  user name, gives the empty string.
\<close>

definition getCurrentUsername :: "koa_context \<Rightarrow> string" where
  "getCurrentUsername c =
     (case state_account c of
        None \<Rightarrow> ''''
      | Some a \<Rightarrow> username a)"

text \<open>
  \<^verbatim>\<open>setLoggedIn(ctx, username)\<close>, with \<^verbatim>\<open>username: string | false\<close> as a
  \<open>string option\<close> (\<open>None\<close> is \<^verbatim>\<open>false\<close>).  The functions \<^verbatim>\<open>getAccount\<close> and
  \<^verbatim>\<open>normalizeUsername\<close> of \<^verbatim>\<open>./perm\<close> are parameters.  The result is the
  thrown error, if any, and the state the call leaves behind.
\<close>

definition setLoggedIn ::
  "(string \<Rightarrow> account option) \<Rightarrow> (string \<Rightarrow> string) \<Rightarrow>
   login_state \<Rightarrow> string option \<Rightarrow> (error + unit) \<times> login_state" where
  "setLoggedIn getAccount normalizeUsername st uname =
     (case ctx_session (ctx st) of
        None \<Rightarrow> (Inl (HttpError HTTP_SERVER_ERROR ''session''), st)
      | Some s \<Rightarrow>
          (case uname of
             None \<Rightarrow>
               (Inr (), st\<lparr>ctx := (ctx st)\<lparr>ctx_session := Some (s\<lparr>session_username := None\<rparr>)\<rparr>\<rparr>)
           | Some u \<Rightarrow>
               (Inr (),
                st\<lparr>invalidSessions := invalidSessions st - {u},
                   ctx := (ctx st)\<lparr>
                     ctx_session := Some (s\<lparr>session_username := Some (normalizeUsername u)\<rparr>),
                     state_account := getAccount u\<rparr>\<rparr>)))"

section \<open>SRP engine\<close>

text \<open>
  \<^verbatim>\<open>s.split('|')\<close> for a one-character separator: the pieces between the
  separators, in order; a string without separator (the empty one too) gives one piece.
\<close>

fun js_split :: "char \<Rightarrow> string \<Rightarrow> string list" where
  "js_split sep [] = [[]]"
| "js_split sep (c # cs) =
     (if c = sep then [] # js_split sep cs
      else (case js_split sep cs of
              [] \<Rightarrow> [[c]]
            | p # ps \<Rightarrow> (c # p) # ps))"

text \<open>The object \<^verbatim>\<open>{ A, M1 }\<close> that \<^verbatim>\<open>srpClientPart\<close> resolves to.\<close>

record client =
  A :: int
  M1 :: int

text \<open>
  What \<^verbatim>\<open>auth.ts\<close> imports and does not define, as parameters: \<^verbatim>\<open>getAccount\<close>
  of \<^verbatim>\<open>./perm\<close>; the built-ins \<^verbatim>\<open>BigInt(string)\<close> (\<open>None\<close> when it throws its
  SyntaxError) and \<^verbatim>\<open>String(bigint)\<close>; of the library \<^verbatim>\<open>tssrp6a\<close> the call
  \<^verbatim>\<open>new SRPServerSession(routines).step1(I, s, v)\<close>, which may throw, the field
  \<^verbatim>\<open>B\<close> of its result and the method \<^verbatim>\<open>step2(A, M1)\<close> of its result (\<open>True\<close>
  when the promise resolves, \<open>False\<close> when it rejects); \<^verbatim>\<open>srpClientPart\<close> of
  \<^verbatim>\<open>./srp\<close>, which may throw; and the hex digest of SHA-256.  The type \<open>'s\<close> is
  the library's step-1 object.  The random choices of the library are fixed with the
  parameter.
\<close>

record 's env =
  getAccount :: "string \<Rightarrow> account option"
  BigInt :: "string \<Rightarrow> int option"
  String_of_bigint :: "int \<Rightarrow> string"
  SRPServerSession_step1 :: "string \<Rightarrow> int \<Rightarrow> int \<Rightarrow> error + 's"
  step1_B :: "'s \<Rightarrow> int"
  step1_step2 :: "'s \<Rightarrow> int \<Rightarrow> int \<Rightarrow> bool"
  srpClientPart :: "string \<Rightarrow> string \<Rightarrow> string \<Rightarrow> string \<Rightarrow> error + client"
  sha256_hex :: "string \<Rightarrow> string"

text \<open>The object \<^verbatim>\<open>{ step1, salt, pubKey }\<close> that \<^verbatim>\<open>srpStep1\<close> resolves to.\<close>

record 's step1_result =
  step1 :: 's
  salt :: string
  pubKey :: string

text \<open>
  \<^verbatim>\<open>srpStep1(account)\<close>.  \<^verbatim>\<open>!account.srp\<close> holds for a missing and for an empty
  string.  The destructuring \<^verbatim>\<open>[salt, verifier]\<close> takes the first two pieces;
  \<^verbatim>\<open>verifier\<close> is undefined when there is one piece only.  The arguments of
  \<^verbatim>\<open>step1\<close> are evaluated from the left, so \<^verbatim>\<open>BigInt(salt)\<close> throws first.
  The SyntaxError carries the text that is no integer.
\<close>

definition srpStep1 :: "'s env \<Rightarrow> account \<Rightarrow> error + 's step1_result" where
  "srpStep1 E account =
     (case srp account of
        None \<Rightarrow> Inl (ThrownStatus HTTP_NOT_ACCEPTABLE)
      | Some s \<Rightarrow>
          if s = [] then Inl (ThrownStatus HTTP_NOT_ACCEPTABLE)
          else
            (case js_split (CHR ''|'') s of
               [] \<Rightarrow> Inl (Error ''malformed account'')
             | [sa] \<Rightarrow> Inl (Error ''malformed account'')
             | sa # verifier # _ \<Rightarrow>
                 if sa = [] \<or> verifier = [] then Inl (Error ''malformed account'')
                 else
                   (case BigInt E sa of
                      None \<Rightarrow> Inl (SyntaxError sa)
                    | Some sn \<Rightarrow>
                        (case BigInt E verifier of
                           None \<Rightarrow> Inl (SyntaxError verifier)
                         | Some vn \<Rightarrow>
                             (case SRPServerSession_step1 E (username account) sn vn of
                                Inl e \<Rightarrow> Inl e
                              | Inr s1 \<Rightarrow>
                                  Inr \<lparr>step1 = s1, salt = sa,
                                       pubKey = String_of_bigint E (step1_B E s1)\<rparr>)))))"

section \<open>Verification cache\<close>

text \<open>
  A promise stored in the cache, given by what it settles to: resolved with the number
  \<^verbatim>\<open>1\<close> or \<^verbatim>\<open>0\<close>, or rejected with an error.
\<close>

datatype outcome = Resolved nat | Rejected error

text \<open>
  The module-level \<^verbatim>\<open>cache\<close> object, the pending \<^verbatim>\<open>setTimeout\<close> callbacks (each
  with the time in milliseconds at which it is due and the key it deletes) and the
  clock.  The field \<open>handshakes\<close> is not in the source: it counts the runs of the
  closure that \<^verbatim>\<open>srpCheck\<close> passes to \<^verbatim>\<open>getOrSet\<close>.
\<close>

record check_state =
  cache :: "string \<rightharpoonup> outcome"
  timers :: "(nat \<times> string) list"
  now :: nat
  handshakes :: nat

text \<open>
  The closure \<^verbatim>\<open>async () => { ... }\<close> inside \<^verbatim>\<open>srpCheck\<close>: the timer is set
  after \<^verbatim>\<open>srpStep1\<close> and \<^verbatim>\<open>srpClientPart\<close> have been awaited, so not when one of them
  throws.  The awaited computations take no time on the clock of the model.
\<close>

definition creator ::
  "'s env \<Rightarrow> account \<Rightarrow> string \<Rightarrow> string \<Rightarrow> string \<Rightarrow> check_state \<Rightarrow> outcome \<times> check_state" where
  "creator E account uname password k st =
     (let st1 = st\<lparr>handshakes := handshakes st + 1\<rparr> in
      case srpStep1 E account of
        Inl e \<Rightarrow> (Rejected e, st1)
      | Inr r \<Rightarrow>
          (case srpClientPart E uname password (salt r) (pubKey r) of
             Inl e \<Rightarrow> (Rejected e, st1)
           | Inr cl \<Rightarrow>
               (Resolved (if step1_step2 E (step1 r) (A cl) (M1 cl) then 1 else 0),
                st1\<lparr>timers := timers st1 @ [(now st1 + 60000, k)]\<rparr>)))"

text \<open>
  Modelled from the spec: \<^verbatim>\<open>getOrSet\<close> of \<^verbatim>\<open>./cross\<close>, which is not among the
  sources.  An entry under the key is returned as it is; otherwise the creator runs and
  what it returns is stored under the key and returned.
\<close>

definition getOrSet ::
  "check_state \<Rightarrow> string \<Rightarrow> (check_state \<Rightarrow> outcome \<times> check_state) \<Rightarrow> outcome \<times> check_state" where
  "getOrSet st k cr =
     (case cache st k of
        Some v \<Rightarrow> (v, st)
      | None \<Rightarrow>
          (case cr st of
             (v, st') \<Rightarrow> (v, st'\<lparr>cache := (cache st')(k \<mapsto> v)\<rparr>)))"

text \<open>
  \<^verbatim>\<open>srpCheck(username, password)\<close>: the value the returned promise resolves to
  (\<open>None\<close> is \<^verbatim>\<open>undefined\<close>) or the error it rejects with, and the state afterwards.
\<close>

definition srpCheck ::
  "'s env \<Rightarrow> check_state \<Rightarrow> string \<Rightarrow> string \<Rightarrow> (error + account option) \<times> check_state" where
  "srpCheck E st uname password =
     (case getAccount E uname of
        None \<Rightarrow> (Inr None, st)
      | Some account \<Rightarrow>
          (case srp account of
             None \<Rightarrow> (Inr None, st)
           | Some s \<Rightarrow>
               if s = [] \<or> password = [] then (Inr None, st)
               else
                 (let k = sha256_hex E (uname @ password @ s) in
                  case getOrSet st k (creator E account uname password k) of
                    (Rejected e, st') \<Rightarrow> (Inl e, st')
                  | (Resolved good, st') \<Rightarrow>
                      (Inr (if good \<noteq> 0 then Some account else None), st'))))"

text \<open>
  The clock moves on by \<open>d\<close> milliseconds: every timer that is due by then runs its
  \<^verbatim>\<open>delete cache[k]\<close> and is gone.
\<close>

definition advance :: "nat \<Rightarrow> check_state \<Rightarrow> check_state" where
  "advance d st =
     (let t = now st + d;
          due = filter (\<lambda>(at, k). at \<le> t) (timers st)
      in st\<lparr>now := t,
            timers := filter (\<lambda>(at, k). \<not> at \<le> t) (timers st),
            cache := fold (\<lambda>(at, k) c. c(k := None)) due (cache st)\<rparr>)"

section \<open>Example data\<close>

text \<open>
  Accounts for the examples: \<^verbatim>\<open>alice\<close> with salt and verifier, \<^verbatim>\<open>bob\<close> with a salt
  only, \<^verbatim>\<open>carol\<close> with a salt that is no number, \<^verbatim>\<open>dave\<close> without \<^verbatim>\<open>srp\<close>,
  and \<^verbatim>\<open>ann\<close> and \<^verbatim>\<open>anna\<close> with one and the same \<^verbatim>\<open>srp\<close> string.
\<close>

definition alice :: account where
  "alice = \<lparr>username = ''alice'', srp = Some ''11|22''\<rparr>"

definition bob :: account where
  "bob = \<lparr>username = ''bob'', srp = Some ''onlysalt''\<rparr>"

definition carol :: account where
  "carol = \<lparr>username = ''carol'', srp = Some ''abc|123''\<rparr>"

definition dave :: account where
  "dave = \<lparr>username = ''dave'', srp = None\<rparr>"

definition ann :: account where
  "ann = \<lparr>username = ''ann'', srp = Some ''5|33''\<rparr>"

definition anna :: account where
  "anna = \<lparr>username = ''anna'', srp = Some ''5|33''\<rparr>"

text \<open>An account store that finds \<^verbatim>\<open>alice\<close> under \<^verbatim>\<open>Alice\<close> too, and a normalization to match.\<close>

definition demo_getAccount :: "string \<Rightarrow> account option" where
  "demo_getAccount u =
     (if u = ''alice'' \<or> u = ''Alice'' then Some alice
      else if u = ''bob'' then Some bob
      else if u = ''carol'' then Some carol
      else if u = ''dave'' then Some dave
      else if u = ''ann'' then Some ann
      else if u = ''anna'' then Some anna
      else None)"

definition demo_normalizeUsername :: "string \<Rightarrow> string" where
  "demo_normalizeUsername u = (if u = ''Alice'' then ''alice'' else u)"

text \<open>
  Three requests, each while \<^verbatim>\<open>alice\<close> is in \<^verbatim>\<open>invalidSessions\<close>: one of
  \<^verbatim>\<open>alice\<close>, logged in; one with a session and no user; one without session.
\<close>

definition alice_request :: login_state where
  "alice_request =
     \<lparr>ctx = \<lparr>ctx_session = Some \<lparr>session_username = Some ''alice''\<rparr>, state_account = Some alice\<rparr>,
      invalidSessions = {''alice''}\<rparr>"

definition anonymous_request :: login_state where
  "anonymous_request =
     \<lparr>ctx = \<lparr>ctx_session = Some \<lparr>session_username = None\<rparr>, state_account = None\<rparr>,
      invalidSessions = {''alice''}\<rparr>"

definition no_session_request :: login_state where
  "no_session_request =
     \<lparr>ctx = \<lparr>ctx_session = None, state_account = None\<rparr>, invalidSessions = {''alice''}\<rparr>"

text \<open>
  A \<^verbatim>\<open>BigInt\<close> for the examples that reads strings of decimal digits and throws on
  every other string (the built-in reads more: a sign, white space around the digits,
  the prefixes \<^verbatim>\<open>0x\<close>, \<^verbatim>\<open>0o\<close>, \<^verbatim>\<open>0b\<close>).
\<close>

fun decimal :: "int \<Rightarrow> string \<Rightarrow> int option" where
  "decimal n [] = Some n"
| "decimal n (c # cs) =
     (if 48 \<le> (of_char c :: nat) \<and> (of_char c :: nat) \<le> 57
      then decimal (10 * n + int (of_char c) - 48) cs
      else None)"

definition demo_BigInt :: "string \<Rightarrow> int option" where
  "demo_BigInt s = decimal 0 s"

text \<open>\<^verbatim>\<open>String(n)\<close> for a big integer: its decimal digits, after the sign.\<close>

function digits :: "nat \<Rightarrow> string" where
  "digits n =
     (if n < 10 then [char_of (48 + n)]
      else digits (n div 10) @ [char_of (48 + n mod 10)])"
  by pat_completeness auto
termination
  by (relation "measure (\<lambda>n. n)") auto

declare digits.simps [simp del]

definition demo_String :: "int \<Rightarrow> string" where
  "demo_String i = (if i < 0 then CHR ''-'' # digits (nat (- i)) else digits (nat i))"

text \<open>
  A stand-in for the SRP library in the examples.  The step-1 object is the verifier it
  was made with; the proof \<^verbatim>\<open>M1\<close> that the client part computes from user name and
  password is given by a table; \<^verbatim>\<open>step2\<close> resolves when the proof is the verifier.
  So \<^verbatim>\<open>secret\<close> is the password of \<^verbatim>\<open>alice\<close> and \<^verbatim>\<open>abel5\<close> that of \<^verbatim>\<open>ann\<close>;
  \<^verbatim>\<open>anna\<close> has none.  The hash is the identity, which has no collisions of its own.
\<close>

definition demo_proof :: "string \<Rightarrow> string \<Rightarrow> int" where
  "demo_proof u p =
     (if u = ''alice'' \<and> p = ''secret'' then 22
      else if u = ''ann'' \<and> p = ''abel5'' then 33
      else 0)"

definition demo_env :: "int env" where
  "demo_env =
     \<lparr>getAccount = demo_getAccount,
      BigInt = demo_BigInt,
      String_of_bigint = demo_String,
      SRPServerSession_step1 = (\<lambda>I s v. Inr v),
      step1_B = (\<lambda>v. v + 1),
      step1_step2 = (\<lambda>v A M1. M1 = v),
      srpClientPart = (\<lambda>u p s B. Inr \<lparr>A = 1, M1 = demo_proof u p\<rparr>),
      sha256_hex = (\<lambda>s. s)\<rparr>"

text \<open>
  The same with a \<^verbatim>\<open>BigInt\<close> that drops the blanks before and after the digits, as
  the built-in does with white space (of a string of blanks it makes \<^verbatim>\<open>0n\<close>), and
  an account whose salt is one blank.
\<close>

definition trim_blanks :: "string \<Rightarrow> string" where
  "trim_blanks s =
     rev (dropWhile (\<lambda>c. c = CHR '' '') (rev (dropWhile (\<lambda>c. c = CHR '' '') s)))"

definition blank_BigInt :: "string \<Rightarrow> int option" where
  "blank_BigInt s = decimal 0 (trim_blanks s)"

definition blank_env :: "int env" where
  "blank_env = demo_env\<lparr>BigInt := blank_BigInt\<rparr>"

definition erin :: account where
  "erin = \<lparr>username = ''erin'', srp = Some '' |22''\<rparr>"

text \<open>The state of a server that has just started.\<close>

definition start :: check_state where
  "start = \<lparr>cache = Map.empty, timers = [], now = 0, handshakes = 0\<rparr>"

section \<open>The session manager's claims\<close>

text \<open>
  Claim C6.  In a context that has a session, \<^verbatim>\<open>setLoggedIn(ctx, u)\<close> does not throw;
  afterwards \<open>u\<close> is not in \<^verbatim>\<open>invalidSessions\<close>, the session's \<^verbatim>\<open>username\<close> is
  \<^verbatim>\<open>normalizeUsername(u)\<close>, and \<^verbatim>\<open>ctx.state.account\<close> is \<^verbatim>\<open>getAccount(u)\<close>.
\<close>

theorem setLoggedIn_login:
  assumes "ctx_session (ctx st) = Some s"
  shows "fst (setLoggedIn ga nu st (Some u)) = Inr ()
       \<and> u \<notin> invalidSessions (snd (setLoggedIn ga nu st (Some u)))
       \<and> ctx_session (ctx (snd (setLoggedIn ga nu st (Some u))))
           = Some (s\<lparr>session_username := Some (nu u)\<rparr>)
       \<and> state_account (ctx (snd (setLoggedIn ga nu st (Some u)))) = ga u"
  using assms by (simp add: setLoggedIn_def)

text \<open>The theorem at a request without user, while \<^verbatim>\<open>alice\<close> is marked invalid.\<close>

theorem setLoggedIn_login_witness:
  "ctx_session (ctx anonymous_request) = Some \<lparr>session_username = None\<rparr>
   \<and> ''alice'' \<in> invalidSessions anonymous_request
   \<and> ''alice'' \<notin> invalidSessions
        (snd (setLoggedIn demo_getAccount demo_normalizeUsername anonymous_request (Some ''alice'')))
   \<and> state_account (ctx
        (snd (setLoggedIn demo_getAccount demo_normalizeUsername anonymous_request (Some ''alice''))))
      = Some alice"
proof -
  have h: "ctx_session (ctx anonymous_request) = Some \<lparr>session_username = None\<rparr>"
    by (simp add: anonymous_request_def)
  show ?thesis
    using h setLoggedIn_login [OF h, of demo_getAccount demo_normalizeUsername "''alice''"]
    by (simp add: anonymous_request_def demo_getAccount_def)
qed

text \<open>
  Claim C8.  In a context without session, \<^verbatim>\<open>setLoggedIn\<close> throws the HTTP error with
  the status \<^verbatim>\<open>HTTP_SERVER_ERROR\<close>, a status of the 5xx class, for a user name as for
  \<^verbatim>\<open>false\<close>, and the state is what it was.
\<close>

theorem setLoggedIn_no_session:
  assumes "ctx_session (ctx st) = None"
  shows "setLoggedIn ga nu st uname = (Inl (HttpError HTTP_SERVER_ERROR ''session''), st)
       \<and> 500 \<le> HTTP_SERVER_ERROR \<and> HTTP_SERVER_ERROR < 600"
  using assms by (simp add: setLoggedIn_def HTTP_SERVER_ERROR_def)

text \<open>The theorem at a request without session, for a login and for a logout.\<close>

theorem setLoggedIn_no_session_witness:
  "ctx_session (ctx no_session_request) = None
   \<and> setLoggedIn demo_getAccount demo_normalizeUsername no_session_request (Some ''alice'')
       = (Inl (HttpError 500 ''session''), no_session_request)
   \<and> setLoggedIn demo_getAccount demo_normalizeUsername no_session_request None
       = (Inl (HttpError 500 ''session''), no_session_request)"
proof -
  have h: "ctx_session (ctx no_session_request) = None"
    by (simp add: no_session_request_def)
  show ?thesis
    using h setLoggedIn_no_session [OF h, of demo_getAccount demo_normalizeUsername "Some ''alice''"]
      setLoggedIn_no_session [OF h, of demo_getAccount demo_normalizeUsername None]
    by (simp add: HTTP_SERVER_ERROR_def)
qed

text \<open>
  Claim C10.  In a context that has a session, \<^verbatim>\<open>setLoggedIn(ctx, u)\<close> takes exactly the
  string \<open>u\<close> out of \<^verbatim>\<open>invalidSessions\<close> and stores \<^verbatim>\<open>normalizeUsername(u)\<close> in
  the session: when the normalized name differs from \<open>u\<close>, its membership is what it
  was, as is the membership of every other string.
\<close>

theorem setLoggedIn_deletes_literal:
  assumes "ctx_session (ctx st) = Some s"
  shows "invalidSessions (snd (setLoggedIn ga nu st (Some u))) = invalidSessions st - {u}
       \<and> ctx_session (ctx (snd (setLoggedIn ga nu st (Some u))))
           = Some (s\<lparr>session_username := Some (nu u)\<rparr>)
       \<and> (nu u \<noteq> u \<longrightarrow>
            (nu u \<in> invalidSessions (snd (setLoggedIn ga nu st (Some u)))
               \<longleftrightarrow> nu u \<in> invalidSessions st))
       \<and> (\<forall>v. v \<noteq> u \<longrightarrow>
            (v \<in> invalidSessions (snd (setLoggedIn ga nu st (Some u)))
               \<longleftrightarrow> v \<in> invalidSessions st))"
  using assms by (auto simp add: setLoggedIn_def)

text \<open>The theorem at a login as \<^verbatim>\<open>Alice\<close> while \<^verbatim>\<open>alice\<close> is marked invalid.\<close>

theorem setLoggedIn_deletes_literal_witness:
  "ctx_session (ctx alice_request) = Some \<lparr>session_username = Some ''alice''\<rparr>
   \<and> demo_normalizeUsername ''Alice'' \<noteq> ''Alice''
   \<and> demo_normalizeUsername ''Alice'' \<in> invalidSessions alice_request
   \<and> demo_normalizeUsername ''Alice'' \<in> invalidSessions
        (snd (setLoggedIn demo_getAccount demo_normalizeUsername alice_request (Some ''Alice'')))
   \<and> ctx_session (ctx
        (snd (setLoggedIn demo_getAccount demo_normalizeUsername alice_request (Some ''Alice''))))
      = Some \<lparr>session_username = Some ''alice''\<rparr>"
proof -
  have h: "ctx_session (ctx alice_request) = Some \<lparr>session_username = Some ''alice''\<rparr>"
    by (simp add: alice_request_def)
  show ?thesis
    using h setLoggedIn_deletes_literal [OF h, of demo_getAccount demo_normalizeUsername "''Alice''"]
    by (simp add: alice_request_def demo_normalizeUsername_def)
qed

text \<open>
  Claim C7 fails as stated: \<^verbatim>\<open>setLoggedIn(ctx, false)\<close> deletes the session's
  \<^verbatim>\<open>username\<close> and leaves \<^verbatim>\<open>ctx.state.account\<close>, which is what
  \<^verbatim>\<open>getCurrentUsername\<close> reads.  In a request of \<^verbatim>\<open>alice\<close> the logout succeeds and
  \<^verbatim>\<open>getCurrentUsername\<close> still returns \<^verbatim>\<open>alice\<close>.
\<close>

theorem logout_keeps_account_counterexample:
  "ctx_session (ctx alice_request) = Some \<lparr>session_username = Some ''alice''\<rparr>
   \<and> fst (setLoggedIn demo_getAccount demo_normalizeUsername alice_request None) = Inr ()
   \<and> getCurrentUsername
        (ctx (snd (setLoggedIn demo_getAccount demo_normalizeUsername alice_request None)))
      = ''alice''"
  by (simp add: setLoggedIn_def alice_request_def getCurrentUsername_def alice_def)

text \<open>
  Claim C7, amended.  In a context that has a session, \<^verbatim>\<open>setLoggedIn(ctx, false)\<close> does
  not throw, deletes the \<^verbatim>\<open>username\<close> of the session and changes nothing else;
  \<^verbatim>\<open>getCurrentUsername\<close>, a total function of the context, returns afterwards what it
  returned before, which is the empty string when no account is attached to the context.
\<close>

theorem setLoggedIn_logout:
  assumes "ctx_session (ctx st) = Some s"
  shows "setLoggedIn ga nu st None
           = (Inr (), st\<lparr>ctx := (ctx st)\<lparr>ctx_session := Some (s\<lparr>session_username := None\<rparr>)\<rparr>\<rparr>)
       \<and> getCurrentUsername (ctx (snd (setLoggedIn ga nu st None))) = getCurrentUsername (ctx st)
       \<and> (state_account (ctx st) = None \<longrightarrow>
            getCurrentUsername (ctx (snd (setLoggedIn ga nu st None))) = [])"
  using assms by (simp add: setLoggedIn_def getCurrentUsername_def)

text \<open>The theorem at a request of \<^verbatim>\<open>alice\<close> and at a request without user.\<close>

theorem setLoggedIn_logout_witness:
  "ctx_session (ctx alice_request) = Some \<lparr>session_username = Some ''alice''\<rparr>
   \<and> ctx_session (ctx (snd (setLoggedIn demo_getAccount demo_normalizeUsername alice_request None)))
       = Some \<lparr>session_username = None\<rparr>
   \<and> ctx_session (ctx anonymous_request) = Some \<lparr>session_username = None\<rparr>
   \<and> state_account (ctx anonymous_request) = None
   \<and> getCurrentUsername
        (ctx (snd (setLoggedIn demo_getAccount demo_normalizeUsername anonymous_request None))) = []"
proof -
  have h: "ctx_session (ctx alice_request) = Some \<lparr>session_username = Some ''alice''\<rparr>"
    by (simp add: alice_request_def)
  have h': "ctx_session (ctx anonymous_request) = Some \<lparr>session_username = None\<rparr>"
    by (simp add: anonymous_request_def)
  have n: "state_account (ctx anonymous_request) = None"
    by (simp add: anonymous_request_def)
  from setLoggedIn_logout [OF h, of demo_getAccount demo_normalizeUsername]
  have a: "ctx_session (ctx (snd (setLoggedIn demo_getAccount demo_normalizeUsername alice_request None)))
       = Some \<lparr>session_username = None\<rparr>"
    by simp
  from setLoggedIn_logout [OF h', of demo_getAccount demo_normalizeUsername] n
  have b: "getCurrentUsername
        (ctx (snd (setLoggedIn demo_getAccount demo_normalizeUsername anonymous_request None))) = []"
    by blast
  from h a h' n b show ?thesis by blast
qed

text \<open>
  Claim C9 fails as stated: two logouts in a row in a request of \<^verbatim>\<open>alice\<close> do not
  throw, and \<^verbatim>\<open>getCurrentUsername\<close> is not empty afterwards, since the account stays
  attached to the context.
\<close>

theorem logout_twice_counterexample:
  "ctx_session (ctx alice_request) = Some \<lparr>session_username = Some ''alice''\<rparr>
   \<and> fst (setLoggedIn demo_getAccount demo_normalizeUsername
        (snd (setLoggedIn demo_getAccount demo_normalizeUsername alice_request None)) None) = Inr ()
   \<and> getCurrentUsername (ctx (snd (setLoggedIn demo_getAccount demo_normalizeUsername
        (snd (setLoggedIn demo_getAccount demo_normalizeUsername alice_request None)) None)))
      \<noteq> []"
  by (simp add: setLoggedIn_def alice_request_def getCurrentUsername_def alice_def)

text \<open>
  Claim C9, amended.  In a context that has a session, a second \<^verbatim>\<open>setLoggedIn(ctx, false)\<close>
  after a first one does not throw and changes nothing, and so does a first one when the
  session has no \<^verbatim>\<open>username\<close>; \<^verbatim>\<open>getCurrentUsername\<close> returns after the two calls
  what it returned before them, the empty string when no account is attached.
\<close>

theorem setLoggedIn_logout_idempotent:
  assumes "ctx_session (ctx st) = Some s"
  shows "setLoggedIn ga nu (snd (setLoggedIn ga nu st None)) None
           = (Inr (), snd (setLoggedIn ga nu st None))
       \<and> (session_username s = None \<longrightarrow> setLoggedIn ga nu st None = (Inr (), st))
       \<and> getCurrentUsername
           (ctx (snd (setLoggedIn ga nu (snd (setLoggedIn ga nu st None)) None)))
         = getCurrentUsername (ctx st)
       \<and> (state_account (ctx st) = None \<longrightarrow>
            getCurrentUsername
              (ctx (snd (setLoggedIn ga nu (snd (setLoggedIn ga nu st None)) None))) = [])"
proof -
  have a: "session_username s = None \<Longrightarrow> s\<lparr>session_username := None\<rparr> = s"
    by simp
  have b: "session_username s = None \<Longrightarrow>
      st\<lparr>ctx := (ctx st)\<lparr>ctx_session := Some s\<rparr>\<rparr> = st"
    using assms by simp
  show ?thesis
    using assms a b by (simp add: setLoggedIn_def getCurrentUsername_def)
qed

text \<open>The theorem at a request without user.\<close>

theorem setLoggedIn_logout_idempotent_witness:
  "ctx_session (ctx anonymous_request) = Some \<lparr>session_username = None\<rparr>
   \<and> session_username \<lparr>session_username = None\<rparr> = None
   \<and> state_account (ctx anonymous_request) = None
   \<and> setLoggedIn demo_getAccount demo_normalizeUsername anonymous_request None
       = (Inr (), anonymous_request)
   \<and> getCurrentUsername (ctx (snd (setLoggedIn demo_getAccount demo_normalizeUsername
        (snd (setLoggedIn demo_getAccount demo_normalizeUsername anonymous_request None)) None)))
      = []"
proof -
  have h: "ctx_session (ctx anonymous_request) = Some \<lparr>session_username = None\<rparr>"
    by (simp add: anonymous_request_def)
  have n: "state_account (ctx anonymous_request) = None"
    by (simp add: anonymous_request_def)
  note t = setLoggedIn_logout_idempotent [OF h, of demo_getAccount demo_normalizeUsername]
  from t have a: "setLoggedIn demo_getAccount demo_normalizeUsername anonymous_request None
       = (Inr (), anonymous_request)"
    by simp
  from t n have b: "getCurrentUsername (ctx (snd (setLoggedIn demo_getAccount demo_normalizeUsername
        (snd (setLoggedIn demo_getAccount demo_normalizeUsername anonymous_request None)) None)))
      = []"
    by blast
  have c: "session_username \<lparr>session_username = None\<rparr> = None"
    by simp
  from h c n a b show ?thesis by blast
qed

section \<open>The SRP engine's claims\<close>

text \<open>A split has at least one piece, so the first branch of \<^verbatim>\<open>srpStep1\<close> on the pieces is never taken.\<close>

lemma js_split_not_Nil: "js_split sep s \<noteq> []"
  by (induction s) (auto split: list.splits)

text \<open>
  Claim C3 fails as stated for a component that is present and not numeric: \<^verbatim>\<open>srpStep1\<close>
  has no check of its own for it, and what is thrown is the SyntaxError of \<^verbatim>\<open>BigInt\<close>,
  not the error \<^verbatim>\<open>malformed account\<close>.
\<close>

theorem malformed_is_SyntaxError_counterexample:
  "srp carol = Some ''abc|123''
   \<and> js_split (CHR ''|'') ''abc|123'' = [''abc'', ''123'']
   \<and> srpStep1 demo_env carol = Inl (SyntaxError ''abc'')
   \<and> srpStep1 demo_env carol \<noteq> Inl (Error ''malformed account'')"
  by (simp add: srpStep1_def carol_def demo_env_def demo_BigInt_def)

text \<open>
  Claim C3, amended.  \<^verbatim>\<open>srpStep1\<close> throws \<^verbatim>\<open>HTTP_NOT_ACCEPTABLE\<close> when
  \<^verbatim>\<open>account.srp\<close> is missing or empty, the error \<^verbatim>\<open>malformed account\<close> when the
  salt or the verifier is missing (no second piece, or an empty first or second piece),
  and the SyntaxError of \<^verbatim>\<open>BigInt\<close> when both are there and \<^verbatim>\<open>BigInt\<close> rejects the
  salt, or else the verifier.  In none of these cases does it resolve.
\<close>

theorem srpStep1_fails:
  shows "(srp account = None \<or> srp account = Some [] \<longrightarrow>
            srpStep1 E account = Inl (ThrownStatus HTTP_NOT_ACCEPTABLE))
       \<and> (srp account = Some s \<and> s \<noteq> [] \<and> js_split (CHR ''|'') s = [sa] \<longrightarrow>
            srpStep1 E account = Inl (Error ''malformed account''))
       \<and> (srp account = Some s \<and> s \<noteq> [] \<and> js_split (CHR ''|'') s = sa # verifier # rest
            \<and> (sa = [] \<or> verifier = []) \<longrightarrow>
            srpStep1 E account = Inl (Error ''malformed account''))
       \<and> (srp account = Some s \<and> s \<noteq> [] \<and> js_split (CHR ''|'') s = sa # verifier # rest
            \<and> sa \<noteq> [] \<and> verifier \<noteq> [] \<and> BigInt E sa = None \<longrightarrow>
            srpStep1 E account = Inl (SyntaxError sa))
       \<and> (srp account = Some s \<and> s \<noteq> [] \<and> js_split (CHR ''|'') s = sa # verifier # rest
            \<and> sa \<noteq> [] \<and> verifier \<noteq> [] \<and> BigInt E sa \<noteq> None \<and> BigInt E verifier = None \<longrightarrow>
            srpStep1 E account = Inl (SyntaxError verifier))"
  by (auto simp add: srpStep1_def)

text \<open>The theorem at an account without \<^verbatim>\<open>srp\<close>, at one with a salt only and at one with a salt of letters.\<close>

theorem srpStep1_fails_witness:
  "srp dave = None
   \<and> srpStep1 demo_env dave = Inl (ThrownStatus 406)
   \<and> srp bob = Some ''onlysalt'' \<and> js_split (CHR ''|'') ''onlysalt'' = [''onlysalt'']
   \<and> srpStep1 demo_env bob = Inl (Error ''malformed account'')
   \<and> srp carol = Some ''abc|123'' \<and> js_split (CHR ''|'') ''abc|123'' = [''abc'', ''123'']
   \<and> BigInt demo_env ''abc'' = None
   \<and> srpStep1 demo_env carol = Inl (SyntaxError ''abc'')"
proof -
  have d: "srp dave = None"
    by (simp add: dave_def)
  have b: "srp bob = Some ''onlysalt''" "js_split (CHR ''|'') ''onlysalt'' = [''onlysalt'']"
    by (simp_all add: bob_def)
  have c: "srp carol = Some ''abc|123''" "js_split (CHR ''|'') ''abc|123'' = [''abc'', ''123'']"
    "BigInt demo_env ''abc'' = None"
    by (simp_all add: carol_def demo_env_def demo_BigInt_def)
  from d srpStep1_fails [where account = dave and E = demo_env]
  have 1: "srpStep1 demo_env dave = Inl (ThrownStatus 406)"
    by (simp add: HTTP_NOT_ACCEPTABLE_def)
  from b srpStep1_fails [where account = bob and E = demo_env and s = "''onlysalt''"
      and sa = "''onlysalt''"]
  have 2: "srpStep1 demo_env bob = Inl (Error ''malformed account'')"
    by simp
  from c srpStep1_fails [where account = carol and E = demo_env and s = "''abc|123''"
      and sa = "''abc''" and verifier = "''123''" and rest = "[]"]
  have 3: "srpStep1 demo_env carol = Inl (SyntaxError ''abc'')"
    by simp
  from d b c 1 2 3 show ?thesis by blast
qed

text \<open>
  What \<^verbatim>\<open>BigInt\<close> accepts is passed on, numeric to the eye or not: when it reads both
  components and the library's \<^verbatim>\<open>step1\<close> returns, \<^verbatim>\<open>srpStep1\<close> resolves.
\<close>

lemma srpStep1_resolves:
  assumes "srp account = Some s" "s \<noteq> []"
    and "js_split (CHR ''|'') s = sa # verifier # rest" "sa \<noteq> []" "verifier \<noteq> []"
    and "BigInt E sa = Some sn" "BigInt E verifier = Some vn"
    and "SRPServerSession_step1 E (username account) sn vn = Inr s1"
  shows "srpStep1 E account
           = Inr \<lparr>step1 = s1, salt = sa, pubKey = String_of_bigint E (step1_B E s1)\<rparr>"
  using assms by (simp add: srpStep1_def)

text \<open>
  So for a salt that is one blank, which is no number and which the built-in
  \<^verbatim>\<open>BigInt\<close> reads as \<^verbatim>\<open>0n\<close>: with a \<^verbatim>\<open>BigInt\<close> that skips blanks, \<^verbatim>\<open>srpStep1\<close>
  resolves for \<^verbatim>\<open>erin\<close>.
\<close>

lemma blank_salt_resolves:
  "srp erin = Some '' |22''
   \<and> js_split (CHR ''|'') '' |22'' = ['' '', ''22'']
   \<and> BigInt blank_env '' '' = Some 0
   \<and> srpStep1 blank_env erin = Inr \<lparr>step1 = 22, salt = '' '', pubKey = ''23''\<rparr>"
proof -
  have d: "digits 23 = ''23''"
    by code_simp
  show ?thesis
    by (simp add: srpStep1_def erin_def blank_env_def demo_env_def blank_BigInt_def
        trim_blanks_def demo_String_def d)
qed

section \<open>The verification cache's claims\<close>

text \<open>
  Claim C5.  When there is no account for the user name, or the account has no (or an
  empty) \<^verbatim>\<open>srp\<close>, or the password is empty, \<^verbatim>\<open>srpCheck\<close> resolves to
  \<^verbatim>\<open>undefined\<close> and the state is what it was: no cache entry, no timer, no handshake.
\<close>

theorem srpCheck_nothing_to_check:
  assumes "getAccount E uname = None
         \<or> (\<exists>a. getAccount E uname = Some a \<and> (srp a = None \<or> srp a = Some []))
         \<or> password = []"
  shows "srpCheck E st uname password = (Inr None, st)"
  using assms by (auto simp add: srpCheck_def split: option.splits)

text \<open>The theorem at an unknown user, at an account without \<^verbatim>\<open>srp\<close> and at an empty password.\<close>

theorem srpCheck_nothing_to_check_witness:
  "getAccount demo_env ''mallory'' = None
   \<and> srpCheck demo_env start ''mallory'' ''secret'' = (Inr None, start)
   \<and> getAccount demo_env ''dave'' = Some dave \<and> srp dave = None
   \<and> srpCheck demo_env start ''dave'' ''secret'' = (Inr None, start)
   \<and> srpCheck demo_env start ''alice'' [] = (Inr None, start)"
proof -
  have m: "getAccount demo_env ''mallory'' = None"
    by (simp add: demo_env_def demo_getAccount_def)
  have d: "getAccount demo_env ''dave'' = Some dave" "srp dave = None"
    by (simp_all add: demo_env_def demo_getAccount_def dave_def)
  from m srpCheck_nothing_to_check [where E = demo_env and uname = "''mallory''"
      and password = "''secret''" and st = start]
  have 1: "srpCheck demo_env start ''mallory'' ''secret'' = (Inr None, start)"
    by blast
  from d srpCheck_nothing_to_check [where E = demo_env and uname = "''dave''"
      and password = "''secret''" and st = start]
  have 2: "srpCheck demo_env start ''dave'' ''secret'' = (Inr None, start)"
    by blast
  from srpCheck_nothing_to_check [where E = demo_env and uname = "''alice''"
      and password = "[]" and st = start]
  have 3: "srpCheck demo_env start ''alice'' [] = (Inr None, start)"
    by blast
  from m d 1 2 3 show ?thesis by blast
qed

text \<open>
  Claim C1 fails where two credentials share a fingerprint.  The key hashes
  \<^verbatim>\<open>username + password + account.srp\<close> with nothing between the parts, and
  \<^verbatim>\<open>ann\<close> and \<^verbatim>\<open>anna\<close> have one \<^verbatim>\<open>srp\<close> string, whose verifier is that of
  \<^verbatim>\<open>ann\<close> with the password \<^verbatim>\<open>abel5\<close>.  The pair \<^verbatim>\<open>anna\<close>, \<^verbatim>\<open>bel5\<close> does not
  match it: on a server that has just started \<^verbatim>\<open>srpCheck\<close> resolves to
  \<^verbatim>\<open>undefined\<close>.  After \<^verbatim>\<open>ann\<close> has come in with \<^verbatim>\<open>abel5\<close>, the same call finds
  her entry in the cache and resolves to the account of \<^verbatim>\<open>anna\<close>.
\<close>

theorem fingerprint_collision:
  "fst (srpCheck demo_env start ''anna'' ''bel5'') = Inr None
   \<and> fst (srpCheck demo_env start ''ann'' ''abel5'') = Inr (Some ann)
   \<and> fst (srpCheck demo_env (snd (srpCheck demo_env start ''ann'' ''abel5'')) ''anna'' ''bel5'')
       = Inr (Some anna)"
  by (simp add: srpCheck_def getOrSet_def creator_def srpStep1_def demo_env_def
      demo_getAccount_def ann_def anna_def start_def demo_BigInt_def demo_proof_def Let_def)

text \<open>
  The same for every account store, library and hash: once a call with \<open>u1\<close>, \<open>p1\<close> has
  been accepted and has left its entry, a call with \<open>u2\<close>, \<open>p2\<close> for an account with the
  same \<^verbatim>\<open>srp\<close> string resolves to that account whenever \<open>u1 @ p1 = u2 @ p2\<close>; no
  handshake is run for it, and what \<^verbatim>\<open>step2\<close> would say of it plays no part.
\<close>

lemma srpCheck_shared_fingerprint:
  fixes E :: "'s env"
  assumes "getAccount E u1 = Some a1" "srp a1 = Some s" "s \<noteq> []" "p1 \<noteq> []"
    and "getAccount E u2 = Some a2" "srp a2 = Some s" "p2 \<noteq> []"
    and "u1 @ p1 = u2 @ p2"
    and "cache st (sha256_hex E (u1 @ p1 @ s)) = None"
    and "srpStep1 E a1 = Inr r" "srpClientPart E u1 p1 (salt r) (pubKey r) = Inr cl"
    and "step1_step2 E (step1 r) (A cl) (M1 cl)"
  shows "fst (srpCheck E st u1 p1) = Inr (Some a1)"
    and "fst (srpCheck E (snd (srpCheck E st u1 p1)) u2 p2) = Inr (Some a2)"
    and "handshakes (snd (srpCheck E (snd (srpCheck E st u1 p1)) u2 p2)) = handshakes st + 1"
proof -
  have k: "u2 @ p2 @ s = u1 @ p1 @ s"
    using assms(8) by (metis append_assoc)
  show "fst (srpCheck E st u1 p1) = Inr (Some a1)"
    using assms by (simp add: srpCheck_def getOrSet_def creator_def Let_def)
  show "fst (srpCheck E (snd (srpCheck E st u1 p1)) u2 p2) = Inr (Some a2)"
    using assms by (simp add: srpCheck_def getOrSet_def creator_def Let_def k)
  show "handshakes (snd (srpCheck E (snd (srpCheck E st u1 p1)) u2 p2)) = handshakes st + 1"
    using assms by (simp add: srpCheck_def getOrSet_def creator_def Let_def k)
qed

text \<open>
  Where the code does what is asked of it: on a cache that holds under the fingerprint
  nothing, or the verdict of these same credentials.  For an unknown user \<^verbatim>\<open>srpCheck\<close> resolves
  to \<^verbatim>\<open>undefined\<close>.  For an account with a non-empty \<^verbatim>\<open>srp\<close> on which
  \<^verbatim>\<open>srpStep1\<close> and the client part do not throw, and a non-empty password, it
  resolves to the account when \<^verbatim>\<open>step2\<close> accepts the proof made from user name and
  password, and to \<^verbatim>\<open>undefined\<close> when it rejects it; it does not throw.
\<close>

lemma srpCheck_verdict:
  fixes E :: "'s env"
  shows "(getAccount E u = None \<longrightarrow> fst (srpCheck E st u p) = Inr None)
       \<and> (getAccount E u = Some a \<and> srp a = Some s \<and> s \<noteq> [] \<and> p \<noteq> []
            \<and> srpStep1 E a = Inr r \<and> srpClientPart E u p (salt r) (pubKey r) = Inr cl
            \<and> step1_step2 E (step1 r) (A cl) (M1 cl)
            \<and> (cache st (sha256_hex E (u @ p @ s)) = None
                 \<or> cache st (sha256_hex E (u @ p @ s)) = Some (Resolved 1)) \<longrightarrow>
            fst (srpCheck E st u p) = Inr (Some a))
       \<and> (getAccount E u = Some a \<and> srp a = Some s \<and> s \<noteq> [] \<and> p \<noteq> []
            \<and> srpStep1 E a = Inr r \<and> srpClientPart E u p (salt r) (pubKey r) = Inr cl
            \<and> \<not> step1_step2 E (step1 r) (A cl) (M1 cl)
            \<and> (cache st (sha256_hex E (u @ p @ s)) = None
                 \<or> cache st (sha256_hex E (u @ p @ s)) = Some (Resolved 0)) \<longrightarrow>
            fst (srpCheck E st u p) = Inr None)"
  by (auto simp add: srpCheck_def getOrSet_def creator_def Let_def)

text \<open>The lemma at an unknown user, at \<^verbatim>\<open>alice\<close> with her password and with one letter of it changed.\<close>

lemma srpCheck_verdict_witness:
  "getAccount demo_env ''mallory'' = None
   \<and> fst (srpCheck demo_env start ''mallory'' ''secret'') = Inr None
   \<and> getAccount demo_env ''alice'' = Some alice \<and> srp alice = Some ''11|22''
   \<and> srpStep1 demo_env alice = Inr \<lparr>step1 = 22, salt = ''11'', pubKey = ''23''\<rparr>
   \<and> srpClientPart demo_env ''alice'' ''secret'' ''11'' ''23'' = Inr \<lparr>A = 1, M1 = 22\<rparr>
   \<and> step1_step2 demo_env 22 1 22
   \<and> cache start (sha256_hex demo_env (''alice'' @ ''secret'' @ ''11|22'')) = None
   \<and> fst (srpCheck demo_env start ''alice'' ''secret'') = Inr (Some alice)
   \<and> srpClientPart demo_env ''alice'' ''secreT'' ''11'' ''23'' = Inr \<lparr>A = 1, M1 = 0\<rparr>
   \<and> \<not> step1_step2 demo_env 22 1 0
   \<and> cache start (sha256_hex demo_env (''alice'' @ ''secreT'' @ ''11|22'')) = None
   \<and> fst (srpCheck demo_env start ''alice'' ''secreT'') = Inr None"
proof -
  have m: "getAccount demo_env ''mallory'' = None"
    by (simp add: demo_env_def demo_getAccount_def)
  have a: "getAccount demo_env ''alice'' = Some alice" "srp alice = Some ''11|22''"
    by (simp_all add: demo_env_def demo_getAccount_def alice_def)
  have d: "digits 23 = ''23''"
    by code_simp
  have s: "srpStep1 demo_env alice = Inr \<lparr>step1 = 22, salt = ''11'', pubKey = ''23''\<rparr>"
    by (simp add: srpStep1_def demo_env_def alice_def demo_BigInt_def demo_String_def d)
  have g: "srpClientPart demo_env ''alice'' ''secret'' ''11'' ''23'' = Inr \<lparr>A = 1, M1 = 22\<rparr>"
    "step1_step2 demo_env 22 1 22"
    "cache start (sha256_hex demo_env (''alice'' @ ''secret'' @ ''11|22'')) = None"
    by (simp_all add: demo_env_def demo_proof_def start_def)
  have b: "srpClientPart demo_env ''alice'' ''secreT'' ''11'' ''23'' = Inr \<lparr>A = 1, M1 = 0\<rparr>"
    "\<not> step1_step2 demo_env 22 1 0"
    "cache start (sha256_hex demo_env (''alice'' @ ''secreT'' @ ''11|22'')) = None"
    by (simp_all add: demo_env_def demo_proof_def start_def)
  from m srpCheck_verdict [where E = demo_env and u = "''mallory''" and p = "''secret''"
      and st = start]
  have 1: "fst (srpCheck demo_env start ''mallory'' ''secret'') = Inr None"
    by blast
  from a s g srpCheck_verdict [where E = demo_env and u = "''alice''" and p = "''secret''"
      and st = start and a = alice and s = "''11|22''"
      and r = "\<lparr>step1 = 22, salt = ''11'', pubKey = ''23''\<rparr>" and cl = "\<lparr>A = 1, M1 = 22\<rparr>"]
  have 2: "fst (srpCheck demo_env start ''alice'' ''secret'') = Inr (Some alice)"
    by simp
  from a s b srpCheck_verdict [where E = demo_env and u = "''alice''" and p = "''secreT''"
      and st = start and a = alice and s = "''11|22''"
      and r = "\<lparr>step1 = 22, salt = ''11'', pubKey = ''23''\<rparr>" and cl = "\<lparr>A = 1, M1 = 0\<rparr>"]
  have 3: "fst (srpCheck demo_env start ''alice'' ''secreT'') = Inr None"
    by simp
  from m a s g b 1 2 3 show ?thesis by blast
qed

text \<open>A call that finds an entry under its fingerprint leaves the state as it is.\<close>

lemma srpCheck_hit:
  assumes "getAccount E u = Some a" "srp a = Some s" "s \<noteq> []" "p \<noteq> []"
    and "cache st (sha256_hex E (u @ p @ s)) = Some v"
  shows "snd (srpCheck E st u p) = st"
  using assms by (simp add: srpCheck_def getOrSet_def Let_def split: outcome.splits)

text \<open>A call that finds none runs the closure once and leaves an entry, which the next call answers from.\<close>

lemma srpCheck_miss:
  assumes "getAccount E u = Some a" "srp a = Some s" "s \<noteq> []" "p \<noteq> []"
    and "cache st (sha256_hex E (u @ p @ s)) = None"
  shows "handshakes (snd (srpCheck E st u p)) = handshakes st + 1"
    and "cache (snd (srpCheck E st u p)) (sha256_hex E (u @ p @ s)) \<noteq> None"
    and "fst (srpCheck E (snd (srpCheck E st u p)) u p) = fst (srpCheck E st u p)"
  using assms
  by (auto simp add: srpCheck_def getOrSet_def creator_def Let_def
      split: outcome.splits sum.splits prod.splits)

text \<open>
  Claim C4 at a handshake that ends in an error.  For \<^verbatim>\<open>bob\<close>, whose \<^verbatim>\<open>srp\<close> has no
  verifier, \<^verbatim>\<open>srpStep1\<close> throws before the closure reaches its \<^verbatim>\<open>setTimeout\<close>: no
  timer is pending after the call, the rejected promise is still in the cache 61 seconds
  later, and the same call then starts no handshake.
\<close>

theorem rejected_entry_stays:
  "fst (srpCheck demo_env start ''bob'' ''secret'') = Inl (Error ''malformed account'')
   \<and> timers (snd (srpCheck demo_env start ''bob'' ''secret'')) = []
   \<and> handshakes (snd (srpCheck demo_env start ''bob'' ''secret'')) = 1
   \<and> cache (advance 61000 (snd (srpCheck demo_env start ''bob'' ''secret'')))
        (sha256_hex demo_env (''bob'' @ ''secret'' @ ''onlysalt''))
      = Some (Rejected (Error ''malformed account''))
   \<and> handshakes (snd (srpCheck demo_env
        (advance 61000 (snd (srpCheck demo_env start ''bob'' ''secret''))) ''bob'' ''secret'')) = 1"
  by (simp add: srpCheck_def getOrSet_def creator_def srpStep1_def demo_env_def
      demo_getAccount_def bob_def start_def advance_def Let_def)

text \<open>What the due timers leave of the cache.\<close>

lemma fold_delete:
  "fold (\<lambda>(at, k) c. c(k := None)) ts c x = (if x \<in> snd ` set ts then None else c x)"
  by (induction ts arbitrary: c) (auto split: prod.splits)

text \<open>After the clock has moved, an entry is gone exactly when a timer for its key was due.\<close>

lemma cache_advance:
  "cache (advance d st) x =
     (if \<exists>at. (at, x) \<in> set (timers st) \<and> at \<le> now st + d then None else cache st x)"
  by (auto simp add: advance_def Let_def fold_delete image_iff)

text \<open>
  When the handshake reaches \<^verbatim>\<open>step2\<close>, whatever its verdict, the timer is set: the
  entry made by a call is there 10 seconds later, when the same call starts no handshake,
  and gone 61 seconds later, when the same call starts a second one.
\<close>

lemma settled_entry_evicted:
  fixes E :: "'s env"
  assumes "getAccount E u = Some a" "srp a = Some s" "s \<noteq> []" "p \<noteq> []"
    and "srpStep1 E a = Inr r" "srpClientPart E u p (salt r) (pubKey r) = Inr cl"
    and "k = sha256_hex E (u @ p @ s)"
    and "cache st k = None" "\<forall>at. (at, k) \<notin> set (timers st)"
  shows "cache (advance 10000 (snd (srpCheck E st u p))) k \<noteq> None"
    and "handshakes (snd (srpCheck E (advance 10000 (snd (srpCheck E st u p))) u p))
           = handshakes st + 1"
    and "cache (advance 61000 (snd (srpCheck E st u p))) k = None"
    and "handshakes (snd (srpCheck E (advance 61000 (snd (srpCheck E st u p))) u p))
           = handshakes st + 2"
proof -
  let ?st = "snd (srpCheck E st u p)"
  have c: "cache ?st k \<noteq> None"
    and t: "timers ?st = timers st @ [(now st + 60000, k)]"
    and n: "now ?st = now st"
    and h: "handshakes ?st = handshakes st + 1"
    using assms by (simp_all add: srpCheck_def getOrSet_def creator_def Let_def)
  show 1: "cache (advance 10000 ?st) k \<noteq> None"
    using c t n assms(9) by (simp add: cache_advance)
  have "(now st + 60000, k) \<in> set (timers ?st) \<and> now st + 60000 \<le> now ?st + 61000"
    using t n by simp
  then have "\<exists>at. (at, k) \<in> set (timers ?st) \<and> at \<le> now ?st + 61000"
    by blast
  then show 3: "cache (advance 61000 ?st) k = None"
    by (simp only: cache_advance if_True)
  have h': "handshakes (advance d ?st) = handshakes st + 1" for d
    using h by (simp add: advance_def Let_def)
  from 1 obtain v where v: "cache (advance 10000 ?st) (sha256_hex E (u @ p @ s)) = Some v"
    using assms(7) by auto
  show "handshakes (snd (srpCheck E (advance 10000 ?st) u p)) = handshakes st + 1"
    using srpCheck_hit [OF assms(1-4) v] h' by simp
  have "cache (advance 61000 ?st) (sha256_hex E (u @ p @ s)) = None"
    using 3 assms(7) by simp
  from srpCheck_miss(1) [OF assms(1-4) this] h'
  show "handshakes (snd (srpCheck E (advance 61000 ?st) u p)) = handshakes st + 2"
    by simp
qed

end
